theory Spec2Isabelle
  imports Complex_Main
begin

section \<open>The wire shapes of the web client (web/lib/types.ts)\<close>

text \<open>
  The client is TypeScript. A \<open>number\<close> that holds an identifier is an \<open>int\<close>, a
  \<open>number\<close> that holds a score is a \<open>rat\<close> (no arithmetic is done on either by the
  functions modelled here), \<open>T | null\<close> is \<open>T option\<close>, an array is a list.
  Field names that several interfaces share carry the interface as a prefix; the fields
  of \<open>AttendanceRecord\<close> and \<open>ExtractionResults\<close> keep their names, but for
  \<open>notes\<close>, a keyword of Isabelle, which is \<open>record_notes\<close>.
\<close>

datatype attendance_status =
  present | absent_without_updates | travelling | family_time | work_business | wellness

record Session =
  s_id :: int
  s_group_id :: int
  s_session_number :: int
  s_session_date :: string
  s_notes :: "string option"
  s_transcript :: "string option"

record AttendanceRecord =
  extracted_name :: string
  status :: attendance_status
  record_notes :: "string option"
  matched_member_id :: "int option"
  confidence_score :: rat
  needs_manual_review :: bool

record Goal =
  goal_name :: string
  quantifiable_goal :: string
  goal_is_vague :: bool

record ChallengeStrategy =
  strategy_name :: "string option"
  strategy_summary :: string
  strategy_tag :: string

record Challenge =
  challenge :: string
  challenge_category :: string
  challenge_strategies :: "ChallengeStrategy list"

record IndividualChallenges =
  ic_name :: string
  ic_challenges :: "Challenge list"

record MarketingOutcome =
  no_of_meetings :: int
  no_of_proposals :: int
  no_of_clients :: int
  outcome_notes :: string

record MarketingActivity =
  stage :: string
  activity :: string
  quanitity :: int
  outcome :: MarketingOutcome
  is_win :: bool
  contract_type :: "string option"
  revenue :: "rat option"
  client_involved :: bool

record IndividualMarketingActivities =
  ima_name :: "string option"
  ima_activities :: "MarketingActivity list"

record StuckDetection =
  stuck_name :: string
  classification :: string
  stuck_summary :: string
  exact_quotes :: "string list"
  potential_next_step :: string

record RepresentativeQuote =
  quote_name :: string
  emotion :: "string list"
  quote_exact_quotes :: "string list"
  is_negative :: bool

record SessionSentiment =
  sentiment_score :: int
  rationale :: string
  dominant_emotion :: string
  representative_quotes :: "RepresentativeQuote list"
  sentiment_confidence_score :: rat

text \<open>
  An element of the \<open>attendance\<close> array. A value of the declared type holds \<open>Rec\<close>
  elements only. The other two constructors are what the assignment
  \<open>updatedAttendance[index] = {...updatedAttendance[index], ...}\<close> leaves behind when
  \<open>index\<close> is past the end of the array: JavaScript extends the array, the skipped
  positions are holes (\<open>Hole\<close>), and the spread of \<open>undefined\<close> adds no field, so
  the new element has the two assigned fields and nothing else (\<open>Bare\<close>).
\<close>

datatype AttendanceSlot =
  Rec AttendanceRecord
  | Hole
  | Bare int bool

text \<open>
  \<open>ExtractionResults\<close>: the one-field wrapper objects (\<open>goals: { goals: Goal[] }\<close> and
  the like) are represented by their field.
\<close>

record ExtractionResults =
  goals :: "Goal list"
  challenges :: "IndividualChallenges list"
  marketing_activities :: "IndividualMarketingActivities list"
  stuck_detections :: "StuckDetection list"
  sentiment :: SessionSentiment
  attendance :: "AttendanceSlot list"

section \<open>The sessions page (web/app/sessions/page.tsx)\<close>

text \<open>
  The state variables of \<open>SessionsPage\<close> that \<open>handleSaveExtractions\<close> and
  \<open>updateAttendanceMatch\<close> read or write. The page's other state variables
  (\<open>programs\<close>, \<open>groups\<close>, \<open>groupMembers\<close>, \<open>isProcessing\<close>, the form data, ...)
  are touched by neither.
\<close>

record PageState =
  selectedGroup :: string
  currentSession :: "Session option"
  transcript :: string
  extractionResults :: "ExtractionResults option"

text \<open>
  \<open>fetchAPI\<close> (web/lib/api.ts) either returns the parsed body or throws: an
  \<open>APIError\<close> with the HTTP status when the response is not ok, an \<open>Error\<close>
  ("Network error: ...") when the request itself fails.
\<close>

datatype api_error = APIError int string | NetworkError string

text \<open>
  What the server answers to \<open>sessionsAPI.saveExtractions(sessionId, extractionResults)\<close>,
  one POST to \<open>/api/sessions/<id>/save-extractions\<close> carrying the whole draft. The server
  is not part of the client: it is a parameter.
\<close>

type_synonym save_api = "int \<Rightarrow> ExtractionResults \<Rightarrow> api_error + string"

text \<open>What a handler does besides updating the state, in order.\<close>

datatype effect =
  SaveRequest int ExtractionResults
  | Alert string
  | ConsoleError string
  | LoadSessions string

definition handleSaveExtractions :: "save_api \<Rightarrow> PageState \<Rightarrow> PageState \<times> effect list" where
  "handleSaveExtractions saveExtractions st =
     (case currentSession st of
        None \<Rightarrow> (st, [])
      | Some cs \<Rightarrow>
          (case extractionResults st of
             None \<Rightarrow> (st, [])
           | Some er \<Rightarrow>
               (case saveExtractions (s_id cs) er of
                  Inr _ \<Rightarrow>
                    (st\<lparr>currentSession := None, transcript := [], extractionResults := None\<rparr>,
                     [SaveRequest (s_id cs) er,
                      Alert ''Extractions saved successfully!'',
                      LoadSessions (selectedGroup st)])
                | Inl _ \<Rightarrow>
                    (st,
                     [SaveRequest (s_id cs) er,
                      ConsoleError ''Failed to save extractions:'',
                      Alert ''Failed to save extractions'']))))"

text \<open>Reading and writing a JavaScript array by index: a read past the end is
  \<open>undefined\<close>, a write past the end extends the array with holes.\<close>

definition array_get :: "AttendanceSlot list \<Rightarrow> nat \<Rightarrow> AttendanceSlot" where
  "array_get xs i = (if i < length xs then xs ! i else Hole)"

definition array_set :: "AttendanceSlot list \<Rightarrow> nat \<Rightarrow> AttendanceSlot \<Rightarrow> AttendanceSlot list" where
  "array_set xs i v =
     (if i < length xs then xs[i := v] else xs @ replicate (i - length xs) Hole @ [v])"

text \<open>\<open>{...slot, matched_member_id: memberId, needs_manual_review: false}\<close>\<close>

definition spread_match :: "AttendanceSlot \<Rightarrow> int \<Rightarrow> AttendanceSlot" where
  "spread_match slot memberId =
     (case slot of
        Rec r \<Rightarrow> Rec (r\<lparr>matched_member_id := Some memberId, needs_manual_review := False\<rparr>)
      | Hole \<Rightarrow> Bare memberId False
      | Bare _ _ \<Rightarrow> Bare memberId False)"

text \<open>
  \<open>updateAttendanceMatch(index, memberId)\<close>. The guard's second disjunct,
  \<open>!extractionResults.attendance\<close>, cannot hold for a value of the declared type (an
  array, empty or not, is truthy), so the guard is the test on \<open>extractionResults\<close>.
  The index is a \<open>nat\<close>: the page calls the function with the position of a rendered
  attendance record.
\<close>

definition updateAttendanceMatch :: "nat \<Rightarrow> int \<Rightarrow> PageState \<Rightarrow> PageState" where
  "updateAttendanceMatch index memberId st =
     (case extractionResults st of
        None \<Rightarrow> st
      | Some er \<Rightarrow>
          (let updatedAttendance =
                 array_set (attendance er) index
                   (spread_match (array_get (attendance er) index) memberId)
           in st\<lparr>extractionResults := Some (er\<lparr>attendance := updatedAttendance\<rparr>)\<rparr>))"

section \<open>The relational store (db/migrations/001_initial_schema.sql)\<close>

text \<open>
  One constructor for each table that holds extracted facts. The first column is the
  table's \<open>id SERIAL PRIMARY KEY\<close>; the others follow the \<open>CREATE TABLE\<close> statement,
  without the timestamps and the defaulted \<open>is_completed\<close>. A \<open>member_id\<close> (and
  \<open>suggested_by\<close>) column is an \<open>int option\<close>, \<open>None\<close> being SQL's NULL: that the
  column is \<open>NOT NULL\<close> is a constraint, checked when a row is inserted. The
  precision of the \<open>DECIMAL\<close> columns is not modelled.

  \<^item> \<open>AttendanceRow id session_id member_id status notes\<close>
  \<^item> \<open>GoalRow id member_id session_id goal is_vague\<close>
  \<^item> \<open>ChallengeRow id member_id session_id description category\<close>
  \<^item> \<open>StrategyRow id challenge_id suggested_by summary tag\<close>
  \<^item> \<open>StuckRow id member_id session_id classification stuck_summary exact_quotes potential_next_step\<close>
  \<^item> \<open>ActivityRow id member_id session_id stage activity quantity is_win contract_type revenue\<close>
  \<^item> \<open>OutcomeRow id activity_id no_of_meetings no_of_proposals no_of_clients notes\<close>
  \<^item> \<open>SentimentRow id session_id sentiment_score rationale dominant_emotion confidence_score\<close>
  \<^item> \<open>StatementRow id session_sentiment_id member_id emotions exact_quotes is_negative\<close>
\<close>

datatype row =
  AttendanceRow nat int "int option" attendance_status "string option"
  | GoalRow nat "int option" int string bool
  | ChallengeRow nat "int option" int string string
  | StrategyRow nat nat "int option" string string
  | StuckRow nat "int option" int string string "string list" "string option"
  | ActivityRow nat "int option" int string string int bool "string option" "rat option"
  | OutcomeRow nat nat int int int string
  | SentimentRow nat int int string string rat
  | StatementRow nat nat "int option" "string list" "string list" bool

datatype table =
  T_session_attendance | T_goals | T_challenges | T_challenge_strategies | T_member_stucks
  | T_marketing_activities | T_marketing_outcomes | T_session_sentiment
  | T_session_sentiment_statements

fun table_of :: "row \<Rightarrow> table" where
  "table_of (AttendanceRow _ _ _ _ _) = T_session_attendance"
| "table_of (GoalRow _ _ _ _ _) = T_goals"
| "table_of (ChallengeRow _ _ _ _ _) = T_challenges"
| "table_of (StrategyRow _ _ _ _ _) = T_challenge_strategies"
| "table_of (StuckRow _ _ _ _ _ _ _) = T_member_stucks"
| "table_of (ActivityRow _ _ _ _ _ _ _ _ _) = T_marketing_activities"
| "table_of (OutcomeRow _ _ _ _ _ _) = T_marketing_outcomes"
| "table_of (SentimentRow _ _ _ _ _ _) = T_session_sentiment"
| "table_of (StatementRow _ _ _ _ _ _) = T_session_sentiment_statements"

fun row_id :: "row \<Rightarrow> nat" where
  "row_id (AttendanceRow i _ _ _ _) = i"
| "row_id (GoalRow i _ _ _ _) = i"
| "row_id (ChallengeRow i _ _ _ _) = i"
| "row_id (StrategyRow i _ _ _ _) = i"
| "row_id (StuckRow i _ _ _ _ _ _) = i"
| "row_id (ActivityRow i _ _ _ _ _ _ _ _) = i"
| "row_id (OutcomeRow i _ _ _ _ _) = i"
| "row_id (SentimentRow i _ _ _ _ _) = i"
| "row_id (StatementRow i _ _ _ _ _) = i"

text \<open>The store: the ids in \<open>members\<close> and in \<open>sessions\<close> (the targets of the foreign
  keys), and the rows of the fact tables in the order they were inserted.\<close>

record store =
  members :: "int list"
  sessions :: "int list"
  rows :: "row list"

text \<open>\<open>PRIMARY KEY\<close>: no row of the same table has the id.\<close>

definition pk_free :: "store \<Rightarrow> row \<Rightarrow> bool" where
  "pk_free st r = list_all (\<lambda>r'. table_of r' \<noteq> table_of r \<or> row_id r' \<noteq> row_id r) (rows st)"

text \<open>\<open>member_id INTEGER NOT NULL REFERENCES members(id)\<close>\<close>

definition member_ok :: "store \<Rightarrow> int option \<Rightarrow> bool" where
  "member_ok st mid = (case mid of None \<Rightarrow> False | Some m \<Rightarrow> m \<in> set (members st))"

text \<open>\<open>suggested_by INTEGER REFERENCES members(id)\<close>: nullable.\<close>

definition nullable_member_ok :: "store \<Rightarrow> int option \<Rightarrow> bool" where
  "nullable_member_ok st mid = (case mid of None \<Rightarrow> True | Some m \<Rightarrow> m \<in> set (members st))"

text \<open>\<open>session_id INTEGER NOT NULL REFERENCES sessions(id)\<close>\<close>

definition session_ok :: "store \<Rightarrow> int \<Rightarrow> bool" where
  "session_ok st sid = (sid \<in> set (sessions st))"

text \<open>\<open>UNIQUE(session_id, member_id)\<close> on \<open>session_attendance\<close>: the row \<open>r'\<close> is not an
  attendance row of the same session and member.\<close>

fun other_attendance :: "int \<Rightarrow> int option \<Rightarrow> row \<Rightarrow> bool" where
  "other_attendance sid mid (AttendanceRow _ sid' mid' _ _) = (sid' \<noteq> sid \<or> mid' \<noteq> mid)"
| "other_attendance sid mid _ = True"

text \<open>\<open>activity_id INTEGER UNIQUE NOT NULL REFERENCES marketing_activities(id)\<close>\<close>

fun is_activity :: "nat \<Rightarrow> row \<Rightarrow> bool" where
  "is_activity aid (ActivityRow i _ _ _ _ _ _ _ _) = (i = aid)"
| "is_activity aid _ = False"

fun other_outcome :: "nat \<Rightarrow> row \<Rightarrow> bool" where
  "other_outcome aid (OutcomeRow _ aid' _ _ _ _) = (aid' \<noteq> aid)"
| "other_outcome aid _ = True"

text \<open>\<open>challenge_id INTEGER NOT NULL REFERENCES challenges(id)\<close>\<close>

fun is_challenge :: "nat \<Rightarrow> row \<Rightarrow> bool" where
  "is_challenge cid (ChallengeRow i _ _ _ _) = (i = cid)"
| "is_challenge cid _ = False"

text \<open>\<open>session_id INTEGER UNIQUE NOT NULL\<close> on \<open>session_sentiment\<close>, and
  \<open>session_sentiment_id INTEGER NOT NULL REFERENCES session_sentiment(id)\<close>\<close>

fun other_sentiment :: "int \<Rightarrow> row \<Rightarrow> bool" where
  "other_sentiment sid (SentimentRow _ sid' _ _ _ _) = (sid' \<noteq> sid)"
| "other_sentiment sid _ = True"

fun is_sentiment :: "nat \<Rightarrow> row \<Rightarrow> bool" where
  "is_sentiment ssid (SentimentRow i _ _ _ _ _) = (i = ssid)"
| "is_sentiment ssid _ = False"

text \<open>The enumerated types \<open>marketing_activity_stage\<close>, \<open>marketing_activity_type\<close> and
  \<open>marketing_activity_contract_type\<close>.\<close>

definition marketing_activity_stage :: "string list" where
  "marketing_activity_stage = [''none_mentioned'', ''meetings'', ''proposals'', ''closed'']"

definition marketing_activity_type :: "string list" where
  "marketing_activity_type =
     [''none_mentioned'', ''network_activation'', ''linkedin'', ''cold_outreach'']"

definition marketing_activity_contract_type :: "string list" where
  "marketing_activity_contract_type = [''one_time'', ''monthly'', ''hybrid'']"

text \<open>The store accepts the row: every constraint its table declares holds.\<close>

fun admissible :: "store \<Rightarrow> row \<Rightarrow> bool" where
  "admissible st (AttendanceRow i sid mid s n) =
     (pk_free st (AttendanceRow i sid mid s n) \<and> session_ok st sid \<and> member_ok st mid \<and>
      list_all (other_attendance sid mid) (rows st))"
| "admissible st (GoalRow i mid sid g v) =
     (pk_free st (GoalRow i mid sid g v) \<and> member_ok st mid \<and> session_ok st sid)"
| "admissible st (ChallengeRow i mid sid d c) =
     (pk_free st (ChallengeRow i mid sid d c) \<and> member_ok st mid \<and> session_ok st sid)"
| "admissible st (StrategyRow i cid sb sm tg) =
     (pk_free st (StrategyRow i cid sb sm tg) \<and> list_ex (is_challenge cid) (rows st) \<and>
      nullable_member_ok st sb)"
| "admissible st (StuckRow i mid sid c sm q nx) =
     (pk_free st (StuckRow i mid sid c sm q nx) \<and> member_ok st mid \<and> session_ok st sid)"
| "admissible st (ActivityRow i mid sid sg a q w ct rv) =
     (pk_free st (ActivityRow i mid sid sg a q w ct rv) \<and> member_ok st mid \<and>
      session_ok st sid \<and> sg \<in> set marketing_activity_stage \<and>
      a \<in> set marketing_activity_type \<and>
      (case ct of None \<Rightarrow> True | Some c \<Rightarrow> c \<in> set marketing_activity_contract_type))"
| "admissible st (OutcomeRow i aid m p c n) =
     (pk_free st (OutcomeRow i aid m p c n) \<and> list_ex (is_activity aid) (rows st) \<and>
      list_all (other_outcome aid) (rows st))"
| "admissible st (SentimentRow i sid sc ra de cf) =
     (pk_free st (SentimentRow i sid sc ra de cf) \<and> session_ok st sid \<and>
      list_all (other_sentiment sid) (rows st))"
| "admissible st (StatementRow i ssid mid em q ng) =
     (pk_free st (StatementRow i ssid mid em q ng) \<and> list_ex (is_sentiment ssid) (rows st) \<and>
      member_ok st mid)"

datatype db_error = ConstraintViolation row | StoreUnavailable

definition insert_row :: "store \<Rightarrow> row \<Rightarrow> db_error + store" where
  "insert_row st r =
     (if admissible st r then Inr (st\<lparr>rows := rows st @ [r]\<rparr>) else Inl (ConstraintViolation r))"

text \<open>
  The inserts of one transaction, in order, stopping at the first that fails.
  \<open>outage = Some k\<close>: the store becomes unavailable after \<open>k\<close> more inserts;
  \<open>None\<close>: it stays available.
\<close>

fun insert_rows :: "nat option \<Rightarrow> row list \<Rightarrow> store \<Rightarrow> db_error + store" where
  "insert_rows outage [] st = Inr st"
| "insert_rows outage (r # rs) st =
     (if outage = Some 0 then Inl StoreUnavailable
      else (case insert_row st r of
              Inl e \<Rightarrow> Inl e
            | Inr st' \<Rightarrow> insert_rows (map_option (\<lambda>k. k - 1) outage) rs st'))"

text \<open>What the constraints of \<open>session_attendance\<close> promise of the table's rows: no
  NULL \<open>member_id\<close>, and no two rows with the same \<open>(session_id, member_id)\<close>.\<close>

fun attendance_key :: "row \<Rightarrow> (int \<times> int option) option" where
  "attendance_key (AttendanceRow _ sid mid _ _) = Some (sid, mid)"
| "attendance_key _ = None"

fun has_member :: "row \<Rightarrow> bool" where
  "has_member (AttendanceRow _ _ mid _ _) = (mid \<noteq> None)"
| "has_member _ = True"

definition attendance_ok :: "row list \<Rightarrow> bool" where
  "attendance_ok rs = (list_all has_member rs \<and> distinct (List.map_filter attendance_key rs))"

section \<open>The draft and the Entity Reconciler\<close>

text \<open>
  The backend that extracts, reconciles and persists is not among the sources: the client
  only calls it (\<open>processTranscript\<close>, \<open>saveExtractions\<close>). What follows in this section
  and the next is written from the specification's sections 3, 4.4 and 4.6. Identifiers
  are \<open>int\<close>, scores and confidences are \<open>rat\<close> (the specification's \<open>0..1\<close>); the
  specification's display of a confidence as a percentage is not modelled.
\<close>

text \<open>Modelled from the spec: \<open>Member\<close>, the identity record \<open>{id, name}\<close>, and the
  \<open>RosterIndex\<close>, the active members of the group in insertion order (the backend that
  builds it is missing).\<close>

record Member =
  m_id :: int
  m_name :: string

type_synonym RosterIndex = "Member list"

text \<open>Modelled from the spec: \<open>ExtractedNameRef\<close>, a raw name paired with an optional
  \<open>resolution: {member_id, confidence, needs_review}\<close>, absent before reconciliation (the
  backend's data model is missing).\<close>

record Resolution =
  member_id :: "int option"
  confidence :: rat
  needs_review :: bool

record ExtractedNameRef =
  raw_name :: string
  resolution :: "Resolution option"

text \<open>Modelled from the spec: the per-category success/failure flag of the \<open>Draft\<close>, as
  the \<open>ok|failed\<close> wrapper of section 9 (the backend's data model is missing).\<close>

datatype 'a extracted = Ok 'a | Failed

text \<open>Modelled from the spec: the six draft categories of section 3 (the backend's data
  model is missing). The specification's \<open>AttendanceRecord\<close>, \<open>Goal\<close>,
  \<open>StuckDetection\<close> and \<open>SessionSentiment\<close> are \<open>DraftAttendance\<close>, \<open>DraftGoal\<close>,
  \<open>Stuck\<close> and \<open>Sentiment\<close> here, the client's interfaces having taken the names.\<close>

record DraftAttendance =
  da_ref :: ExtractedNameRef
  da_status :: attendance_status
  da_notes :: "string option"

record DraftGoal =
  goal_owner :: ExtractedNameRef
  goal_text :: string
  is_vague :: bool

record Strategy =
  summary :: string
  tag :: string
  suggested_by :: "ExtractedNameRef option"

record DraftChallenge =
  description :: string
  category :: string
  strategies :: "Strategy list"

record ChallengeGroup =
  challenge_owner :: ExtractedNameRef
  group_challenges :: "DraftChallenge list"

record Outcome =
  meetings :: int
  proposals :: int
  clients :: int
  oc_notes :: string

record Activity =
  act_stage :: string
  activity_type :: string
  quantity :: int
  act_is_win :: bool
  act_contract_type :: "string option"
  act_revenue :: "rat option"
  act_outcome :: "Outcome option"

record MarketingGroup =
  marketing_owner :: ExtractedNameRef
  group_activities :: "Activity list"

record Stuck =
  stuck_owner :: ExtractedNameRef
  stuck_classification :: string
  stuck_text :: string
  stuck_quotes :: "string list"
  next_step :: "string option"

record Statement =
  statement_owner :: ExtractedNameRef
  emotions :: "string list"
  statement_quotes :: "string list"
  statement_is_negative :: bool

record Sentiment =
  score :: int
  sentiment_rationale :: string
  sentiment_emotion :: string
  sentiment_confidence :: rat
  statements :: "Statement list"

text \<open>Modelled from the spec: \<open>Draft\<close>, the aggregate of the six categories, each tagged
  ok or failed (the backend's data model is missing).\<close>

record Draft =
  draft_attendance :: "DraftAttendance list extracted"
  draft_goals :: "DraftGoal list extracted"
  draft_challenges :: "ChallengeGroup list extracted"
  draft_marketing :: "MarketingGroup list extracted"
  draft_stucks :: "Stuck list extracted"
  draft_sentiment :: "Sentiment extracted"

text \<open>Modelled from the spec: the parameters of the Entity Reconciler (the reconciler is
  missing). The specification leaves the similarity measure open (normalised edit distance
  or token overlap, after case folding and tokenising), names the two thresholds, and
  speaks of two candidates that tie within a small margin.\<close>

record Policy =
  similarity :: "string \<Rightarrow> string \<Rightarrow> rat"
  high_confidence_threshold :: rat
  review_threshold :: rat
  tie_margin :: rat

text \<open>Modelled from the spec: the score of the raw name against each roster member's
  name, in roster order (the reconciler is missing).\<close>

definition scored :: "Policy \<Rightarrow> RosterIndex \<Rightarrow> string \<Rightarrow> (Member \<times> rat) list" where
  "scored P roster raw = map (\<lambda>m. (m, similarity P raw (m_name m))) roster"

text \<open>Modelled from the spec: pick the highest-scoring candidate, ties broken by roster
  insertion order: a later candidate replaces the best so far only when it scores
  strictly higher (the reconciler is missing).\<close>

fun best_candidate :: "(Member \<times> rat) list \<Rightarrow> (Member \<times> rat) option" where
  "best_candidate [] = None"
| "best_candidate (c # cs) = Some (foldl (\<lambda>b x. if snd b < snd x then x else b) c cs)"

text \<open>Modelled from the spec: the best score \<open>s\<close> is uniquely highest when no two
  candidates tie within the margin, that is when at most one candidate (the best one)
  scores within \<open>tie_margin\<close> of \<open>s\<close> (the reconciler is missing).\<close>

definition uniquely_highest :: "Policy \<Rightarrow> (Member \<times> rat) list \<Rightarrow> rat \<Rightarrow> bool" where
  "uniquely_highest P cs s = (length (filter (\<lambda>c. s - snd c \<le> tie_margin P) cs) \<le> 1)"

text \<open>Modelled from the spec: the policy of section 4.4 (the reconciler is missing).
  An empty roster, or a best score below \<open>review_threshold\<close>: no member, review needed.
  A best score of at least \<open>high_confidence_threshold\<close> that is uniquely highest: resolved,
  no review. Otherwise (a score between the thresholds, or a tie within the margin):
  resolved to the best candidate, review needed. The tie clause is read as applying to
  scores that reach \<open>review_threshold\<close>, as the third bullet and the properties of
  section 8 require.\<close>

definition decide :: "Policy \<Rightarrow> RosterIndex \<Rightarrow> string \<Rightarrow> Resolution" where
  "decide P roster raw =
     (case best_candidate (scored P roster raw) of
        None \<Rightarrow> \<lparr>member_id = None, confidence = 0, needs_review = True\<rparr>
      | Some (m, s) \<Rightarrow>
          if high_confidence_threshold P \<le> s \<and> uniquely_highest P (scored P roster raw) s
          then \<lparr>member_id = Some (m_id m), confidence = s, needs_review = False\<rparr>
          else if s < review_threshold P
          then \<lparr>member_id = None, confidence = s, needs_review = True\<rparr>
          else \<lparr>member_id = Some (m_id m), confidence = s, needs_review = True\<rparr>)"

text \<open>Modelled from the spec: \<open>resolve(draft, roster)\<close> computes the resolution of every
  \<open>ExtractedNameRef\<close> in every category from its raw name and the roster, and changes
  nothing else (the reconciler is missing).\<close>

definition resolve_ref :: "Policy \<Rightarrow> RosterIndex \<Rightarrow> ExtractedNameRef \<Rightarrow> ExtractedNameRef" where
  "resolve_ref P roster r = r\<lparr>resolution := Some (decide P roster (raw_name r))\<rparr>"

definition resolve_attendance :: "Policy \<Rightarrow> RosterIndex \<Rightarrow> DraftAttendance \<Rightarrow> DraftAttendance" where
  "resolve_attendance P roster a = a\<lparr>da_ref := resolve_ref P roster (da_ref a)\<rparr>"

definition resolve_goal :: "Policy \<Rightarrow> RosterIndex \<Rightarrow> DraftGoal \<Rightarrow> DraftGoal" where
  "resolve_goal P roster g = g\<lparr>goal_owner := resolve_ref P roster (goal_owner g)\<rparr>"

definition resolve_strategy :: "Policy \<Rightarrow> RosterIndex \<Rightarrow> Strategy \<Rightarrow> Strategy" where
  "resolve_strategy P roster s =
     s\<lparr>suggested_by := map_option (resolve_ref P roster) (suggested_by s)\<rparr>"

definition resolve_challenge :: "Policy \<Rightarrow> RosterIndex \<Rightarrow> DraftChallenge \<Rightarrow> DraftChallenge" where
  "resolve_challenge P roster c =
     c\<lparr>strategies := map (resolve_strategy P roster) (strategies c)\<rparr>"

definition resolve_group :: "Policy \<Rightarrow> RosterIndex \<Rightarrow> ChallengeGroup \<Rightarrow> ChallengeGroup" where
  "resolve_group P roster g =
     g\<lparr>challenge_owner := resolve_ref P roster (challenge_owner g),
       group_challenges := map (resolve_challenge P roster) (group_challenges g)\<rparr>"

definition resolve_marketing :: "Policy \<Rightarrow> RosterIndex \<Rightarrow> MarketingGroup \<Rightarrow> MarketingGroup" where
  "resolve_marketing P roster g =
     g\<lparr>marketing_owner := resolve_ref P roster (marketing_owner g)\<rparr>"

definition resolve_stuck :: "Policy \<Rightarrow> RosterIndex \<Rightarrow> Stuck \<Rightarrow> Stuck" where
  "resolve_stuck P roster k = k\<lparr>stuck_owner := resolve_ref P roster (stuck_owner k)\<rparr>"

definition resolve_statement :: "Policy \<Rightarrow> RosterIndex \<Rightarrow> Statement \<Rightarrow> Statement" where
  "resolve_statement P roster t =
     t\<lparr>statement_owner := resolve_ref P roster (statement_owner t)\<rparr>"

definition resolve_sentiment :: "Policy \<Rightarrow> RosterIndex \<Rightarrow> Sentiment \<Rightarrow> Sentiment" where
  "resolve_sentiment P roster s =
     s\<lparr>statements := map (resolve_statement P roster) (statements s)\<rparr>"

definition resolve :: "Policy \<Rightarrow> RosterIndex \<Rightarrow> Draft \<Rightarrow> Draft" where
  "resolve P roster d =
     \<lparr>draft_attendance = map_extracted (map (resolve_attendance P roster)) (draft_attendance d),
      draft_goals = map_extracted (map (resolve_goal P roster)) (draft_goals d),
      draft_challenges = map_extracted (map (resolve_group P roster)) (draft_challenges d),
      draft_marketing = map_extracted (map (resolve_marketing P roster)) (draft_marketing d),
      draft_stucks = map_extracted (map (resolve_stuck P roster)) (draft_stucks d),
      draft_sentiment = map_extracted (resolve_sentiment P roster) (draft_sentiment d)\<rparr>"

text \<open>Modelled from the spec: every \<open>ExtractedNameRef\<close> of a draft, category by category;
  a failed category holds none (the backend's data model is missing).\<close>

definition strategy_refs :: "Strategy \<Rightarrow> ExtractedNameRef list" where
  "strategy_refs s = (case suggested_by s of None \<Rightarrow> [] | Some r \<Rightarrow> [r])"

definition challenge_refs :: "DraftChallenge \<Rightarrow> ExtractedNameRef list" where
  "challenge_refs c = concat (map strategy_refs (strategies c))"

definition group_refs :: "ChallengeGroup \<Rightarrow> ExtractedNameRef list" where
  "group_refs g = challenge_owner g # concat (map challenge_refs (group_challenges g))"

fun extracted_refs :: "('a \<Rightarrow> ExtractedNameRef list) \<Rightarrow> 'a extracted \<Rightarrow> ExtractedNameRef list" where
  "extracted_refs f (Ok x) = f x"
| "extracted_refs f Failed = []"

definition refs :: "Draft \<Rightarrow> ExtractedNameRef list" where
  "refs d =
     extracted_refs (map da_ref) (draft_attendance d) @
     extracted_refs (map goal_owner) (draft_goals d) @
     extracted_refs (\<lambda>gs. concat (map group_refs gs)) (draft_challenges d) @
     extracted_refs (map marketing_owner) (draft_marketing d) @
     extracted_refs (map stuck_owner) (draft_stucks d) @
     extracted_refs (\<lambda>s. map statement_owner (statements s)) (draft_sentiment d)"

section \<open>The Persistence Writer\<close>

text \<open>Modelled from the spec: the member a reference is resolved to, if any; a row is
  written for an item whose owning reference is resolved, and an item without a resolved
  member is skipped and reported (the Persistence Writer is missing).\<close>

definition member_of :: "ExtractedNameRef \<Rightarrow> int option" where
  "member_of r = (case resolution r of None \<Rightarrow> None | Some res \<Rightarrow> member_id res)"

text \<open>Modelled from the spec: the rows the writer inserts for each category, in order,
  with the ids they take: \<open>n\<close> is the first free id (the Persistence Writer is missing).
  One attendance row for each resolved attendance record.\<close>

fun plan_attendance :: "nat \<Rightarrow> int \<Rightarrow> DraftAttendance list \<Rightarrow> row list" where
  "plan_attendance n sid [] = []"
| "plan_attendance n sid (a # as) =
     (case member_of (da_ref a) of
        None \<Rightarrow> plan_attendance n sid as
      | Some m \<Rightarrow>
          AttendanceRow n sid (Some m) (da_status a) (da_notes a) #
          plan_attendance (Suc n) sid as)"

text \<open>Modelled from the spec: goal rows (the Persistence Writer is missing).\<close>

fun plan_goals :: "nat \<Rightarrow> int \<Rightarrow> DraftGoal list \<Rightarrow> row list" where
  "plan_goals n sid [] = []"
| "plan_goals n sid (g # gs) =
     (case member_of (goal_owner g) of
        None \<Rightarrow> plan_goals n sid gs
      | Some m \<Rightarrow> GoalRow n (Some m) sid (goal_text g) (is_vague g) # plan_goals (Suc n) sid gs)"

text \<open>Modelled from the spec: challenge rows together with their strategy rows; a
  strategy's \<open>suggested_by\<close> is left null if unresolved rather than rejecting the challenge
  (the Persistence Writer is missing).\<close>

fun plan_strategies :: "nat \<Rightarrow> nat \<Rightarrow> Strategy list \<Rightarrow> row list" where
  "plan_strategies n cid [] = []"
| "plan_strategies n cid (s # ss) =
     StrategyRow n cid (case suggested_by s of None \<Rightarrow> None | Some r \<Rightarrow> member_of r)
       (summary s) (tag s) #
     plan_strategies (Suc n) cid ss"

fun plan_challenges :: "nat \<Rightarrow> int \<Rightarrow> int \<Rightarrow> DraftChallenge list \<Rightarrow> row list" where
  "plan_challenges n sid m [] = []"
| "plan_challenges n sid m (c # cs) =
     ChallengeRow n (Some m) sid (description c) (category c) #
     plan_strategies (Suc n) n (strategies c) @
     plan_challenges (Suc n + length (strategies c)) sid m cs"

fun plan_challenge_groups :: "nat \<Rightarrow> int \<Rightarrow> ChallengeGroup list \<Rightarrow> row list" where
  "plan_challenge_groups n sid [] = []"
| "plan_challenge_groups n sid (g # gs) =
     (case member_of (challenge_owner g) of
        None \<Rightarrow> plan_challenge_groups n sid gs
      | Some m \<Rightarrow>
          plan_challenges n sid m (group_challenges g) @
          plan_challenge_groups (n + length (plan_challenges n sid m (group_challenges g)))
            sid gs)"

text \<open>Modelled from the spec: marketing activity rows, each paired with an outcome row
  when the activity has an outcome (the Persistence Writer is missing).\<close>

fun plan_activities :: "nat \<Rightarrow> int \<Rightarrow> int \<Rightarrow> Activity list \<Rightarrow> row list" where
  "plan_activities n sid m [] = []"
| "plan_activities n sid m (a # as) =
     ActivityRow n (Some m) sid (act_stage a) (activity_type a) (quantity a) (act_is_win a)
       (act_contract_type a) (act_revenue a) #
     (case act_outcome a of
        None \<Rightarrow> plan_activities (Suc n) sid m as
      | Some oc \<Rightarrow>
          OutcomeRow (Suc n) n (meetings oc) (proposals oc) (clients oc) (oc_notes oc) #
          plan_activities (Suc (Suc n)) sid m as)"

fun plan_marketing_groups :: "nat \<Rightarrow> int \<Rightarrow> MarketingGroup list \<Rightarrow> row list" where
  "plan_marketing_groups n sid [] = []"
| "plan_marketing_groups n sid (g # gs) =
     (case member_of (marketing_owner g) of
        None \<Rightarrow> plan_marketing_groups n sid gs
      | Some m \<Rightarrow>
          plan_activities n sid m (group_activities g) @
          plan_marketing_groups (n + length (plan_activities n sid m (group_activities g)))
            sid gs)"

text \<open>Modelled from the spec: stuck-detection rows (the Persistence Writer is missing).\<close>

fun plan_stucks :: "nat \<Rightarrow> int \<Rightarrow> Stuck list \<Rightarrow> row list" where
  "plan_stucks n sid [] = []"
| "plan_stucks n sid (k # ks) =
     (case member_of (stuck_owner k) of
        None \<Rightarrow> plan_stucks n sid ks
      | Some m \<Rightarrow>
          StuckRow n (Some m) sid (stuck_classification k) (stuck_text k) (stuck_quotes k)
            (next_step k) #
          plan_stucks (Suc n) sid ks)"

text \<open>Modelled from the spec: one sentiment row with its per-member statement rows (the
  Persistence Writer is missing).\<close>

fun plan_statements :: "nat \<Rightarrow> nat \<Rightarrow> Statement list \<Rightarrow> row list" where
  "plan_statements n ssid [] = []"
| "plan_statements n ssid (t # ts) =
     (case member_of (statement_owner t) of
        None \<Rightarrow> plan_statements n ssid ts
      | Some m \<Rightarrow>
          StatementRow n ssid (Some m) (emotions t) (statement_quotes t)
            (statement_is_negative t) #
          plan_statements (Suc n) ssid ts)"

definition plan_sentiment :: "nat \<Rightarrow> int \<Rightarrow> Sentiment \<Rightarrow> row list" where
  "plan_sentiment n sid s =
     SentimentRow n sid (score s) (sentiment_rationale s) (sentiment_emotion s)
       (sentiment_confidence s) #
     plan_statements (Suc n) n (statements s)"

text \<open>Modelled from the spec: a failed category contributes no row (the Persistence
  Writer is missing).\<close>

fun plan_extracted :: "('a \<Rightarrow> row list) \<Rightarrow> 'a extracted \<Rightarrow> row list" where
  "plan_extracted f (Ok x) = f x"
| "plan_extracted f Failed = []"

text \<open>Modelled from the spec: every relational write of one commit: attendance, goals,
  challenges with their strategies, marketing activities with their outcomes, stucks,
  sentiment with its statements (the Persistence Writer is missing).\<close>

definition plan :: "nat \<Rightarrow> int \<Rightarrow> Draft \<Rightarrow> row list" where
  "plan n sid d =
     (let r1 = plan_extracted (plan_attendance n sid) (draft_attendance d);
          n2 = n + length r1;
          r2 = plan_extracted (plan_goals n2 sid) (draft_goals d);
          n3 = n2 + length r2;
          r3 = plan_extracted (plan_challenge_groups n3 sid) (draft_challenges d);
          n4 = n3 + length r3;
          r4 = plan_extracted (plan_marketing_groups n4 sid) (draft_marketing d);
          n5 = n4 + length r4;
          r5 = plan_extracted (plan_stucks n5 sid) (draft_stucks d);
          n6 = n5 + length r5;
          r6 = plan_extracted (plan_sentiment n6 sid) (draft_sentiment d)
      in r1 @ r2 @ r3 @ r4 @ r5 @ r6)"

text \<open>Modelled from the spec: the first id no row of the store has (the Persistence
  Writer is missing; the schema's \<open>SERIAL\<close> columns number each table's rows, one
  numbering for all tables is used here).\<close>

definition next_id :: "store \<Rightarrow> nat" where
  "next_id st = Suc (foldr max (map row_id (rows st)) 0)"

text \<open>Modelled from the spec: the commit's result \<open>{written: counts per category,
  rejected: list of (category, reason)}\<close>; the reason given here is the raw name that has
  no resolved member (the Persistence Writer is missing).\<close>

datatype fact_category =
  Attendance | Goals | Challenges | Marketing | Stucks | SessionSentimentCategory

fun category_of :: "row \<Rightarrow> fact_category" where
  "category_of (AttendanceRow _ _ _ _ _) = Attendance"
| "category_of (GoalRow _ _ _ _ _) = Goals"
| "category_of (ChallengeRow _ _ _ _ _) = Challenges"
| "category_of (StrategyRow _ _ _ _ _) = Challenges"
| "category_of (StuckRow _ _ _ _ _ _ _) = Stucks"
| "category_of (ActivityRow _ _ _ _ _ _ _ _ _) = Marketing"
| "category_of (OutcomeRow _ _ _ _ _ _) = Marketing"
| "category_of (SentimentRow _ _ _ _ _ _) = SessionSentimentCategory"
| "category_of (StatementRow _ _ _ _ _ _) = SessionSentimentCategory"

record CommitReport =
  written :: "(fact_category \<times> nat) list"
  rejected :: "(fact_category \<times> string) list"

definition written_counts :: "row list \<Rightarrow> (fact_category \<times> nat) list" where
  "written_counts rs =
     map (\<lambda>c. (c, length (filter (\<lambda>r. category_of r = c) rs)))
       [Attendance, Goals, Challenges, Marketing, Stucks, SessionSentimentCategory]"

definition unresolved_in ::
  "fact_category \<Rightarrow> ('a \<Rightarrow> ExtractedNameRef) \<Rightarrow> 'a list extracted \<Rightarrow> (fact_category \<times> string) list"
  where
  "unresolved_in c owner e =
     (case e of
        Failed \<Rightarrow> []
      | Ok xs \<Rightarrow> map (\<lambda>x. (c, raw_name (owner x))) (filter (\<lambda>x. member_of (owner x) = None) xs))"

definition rejected_items :: "Draft \<Rightarrow> (fact_category \<times> string) list" where
  "rejected_items d =
     unresolved_in Attendance da_ref (draft_attendance d) @
     unresolved_in Goals goal_owner (draft_goals d) @
     unresolved_in Challenges challenge_owner (draft_challenges d) @
     unresolved_in Marketing marketing_owner (draft_marketing d) @
     unresolved_in Stucks stuck_owner (draft_stucks d) @
     unresolved_in SessionSentimentCategory statement_owner
       (map_extracted statements (draft_sentiment d))"

datatype commit_error = PersistenceFailure db_error

text \<open>Modelled from the spec: \<open>commit(session_id, draft)\<close> executes as a single atomic
  transaction against the relational store: the planned rows are inserted in order, and
  if the transaction cannot complete (store unavailable, constraint violation) the entire
  commit rolls back: the store is the one the commit started from, and the failure is
  reported (the Persistence Writer is missing; the store and its constraints are the
  schema's).\<close>

definition commit ::
  "nat option \<Rightarrow> int \<Rightarrow> Draft \<Rightarrow> store \<Rightarrow> (commit_error + CommitReport) \<times> store" where
  "commit outage sid d st =
     (case insert_rows outage (plan (next_id st) sid d) st of
        Inl e \<Rightarrow> (Inl (PersistenceFailure e), st)
      | Inr st' \<Rightarrow>
          (Inr \<lparr>written = written_counts (plan (next_id st) sid d),
                rejected = rejected_items d\<rparr>, st'))"

section \<open>Predicates of the specification, and example values\<close>

text \<open>
  \<open>ready()\<close>, in the specification's words: no reference with \<open>needs_review == true\<close>
  remains among the rows to persist. In the client's draft the attendance records are the
  rows that carry the flag.
\<close>

fun slot_needs_review :: "AttendanceSlot \<Rightarrow> bool" where
  "slot_needs_review (Rec r) = needs_manual_review r"
| "slot_needs_review Hole = False"
| "slot_needs_review (Bare _ b) = b"

definition ready :: "ExtractionResults \<Rightarrow> bool" where
  "ready er = list_all (\<lambda>s. \<not> slot_needs_review s) (attendance er)"

text \<open>
  The two halves of the specification's invariant on a name reference, read on an
  attendance record: \<open>needs_review == false\<close> requires a non-null \<open>member_id\<close>; and
  \<open>needs_review == true\<close> whenever the confidence is below \<open>review_threshold\<close> or there
  is no candidate.
\<close>

fun resolved_has_member :: "AttendanceSlot \<Rightarrow> bool" where
  "resolved_has_member (Rec r) = (needs_manual_review r \<or> matched_member_id r \<noteq> None)"
| "resolved_has_member Hole = True"
| "resolved_has_member (Bare _ _) = True"

fun low_confidence_flagged :: "rat \<Rightarrow> AttendanceSlot \<Rightarrow> bool" where
  "low_confidence_flagged threshold (Rec r) =
     (needs_manual_review r \<or>
      \<not> (confidence_score r < threshold \<or> matched_member_id r = None))"
| "low_confidence_flagged threshold Hole = True"
| "low_confidence_flagged threshold (Bare _ _) = True"

definition example_session :: Session where
  "example_session = \<lparr>s_id = 1, s_group_id = 1, s_session_number = 1,
     s_session_date = ''2025-01-06'', s_notes = None, s_transcript = None\<rparr>"

definition example_record :: AttendanceRecord where
  "example_record = \<lparr>extracted_name = ''J.'', status = present, record_notes = None,
     matched_member_id = None, confidence_score = 30, needs_manual_review = True\<rparr>"

definition example_matched :: AttendanceRecord where
  "example_matched = \<lparr>extracted_name = ''Jaime Lin'', status = travelling,
     record_notes = Some ''back next week'', matched_member_id = Some 8,
     confidence_score = 92, needs_manual_review = False\<rparr>"

definition example_sentiment :: SessionSentiment where
  "example_sentiment = \<lparr>sentiment_score = 4, rationale = ''steady'',
     dominant_emotion = ''calm'', representative_quotes = [],
     sentiment_confidence_score = 1\<rparr>"

definition example_results :: ExtractionResults where
  "example_results = \<lparr>goals = [], challenges = [], marketing_activities = [],
     stuck_detections = [], sentiment = example_sentiment,
     attendance = [Rec example_record, Rec example_matched]\<rparr>"

definition example_state :: PageState where
  "example_state = \<lparr>selectedGroup = ''1'', currentSession = Some example_session,
     transcript = ''Jamie: hello'', extractionResults = Some example_results\<rparr>"

definition accepting_server :: save_api where
  "accepting_server sessionId er = Inr ''saved''"

definition example_store :: store where
  "example_store = \<lparr>members = [7, 8], sessions = [1], rows = []\<rparr>"

text \<open>An example roster, policy and draft. The similarity of the example policy is the
  share of characters two names have in common (counted with multiplicity) in the longer
  of the two.\<close>

fun common_chars :: "string \<Rightarrow> string \<Rightarrow> nat" where
  "common_chars [] ys = 0"
| "common_chars (x # xs) ys =
     (if x \<in> set ys then Suc (common_chars xs (remove1 x ys)) else common_chars xs ys)"

definition example_similarity :: "string \<Rightarrow> string \<Rightarrow> rat" where
  "example_similarity a b = of_nat (common_chars a b) / of_nat (max (length a) (length b))"

definition example_policy :: Policy where
  "example_policy = \<lparr>similarity = example_similarity, high_confidence_threshold = 85 / 100,
     review_threshold = 1 / 2, tie_margin = 1 / 20\<rparr>"

definition jamie :: Member where
  "jamie = \<lparr>m_id = 7, m_name = ''Jamie Lin''\<rparr>"

definition pat :: Member where
  "pat = \<lparr>m_id = 8, m_name = ''Pat Osei''\<rparr>"

definition example_roster :: RosterIndex where
  "example_roster = [jamie, pat]"

definition unresolved_ref :: "string \<Rightarrow> ExtractedNameRef" where
  "unresolved_ref n = \<lparr>raw_name = n, resolution = None\<rparr>"

definition example_draft :: Draft where
  "example_draft =
     \<lparr>draft_attendance = Ok
        [\<lparr>da_ref = unresolved_ref ''Jaime Lin'', da_status = present, da_notes = None\<rparr>,
         \<lparr>da_ref = unresolved_ref ''J.'', da_status = travelling, da_notes = None\<rparr>],
      draft_goals = Ok
        [\<lparr>goal_owner = unresolved_ref ''Pat Osei'', goal_text = ''Call ten leads'',
          is_vague = False\<rparr>],
      draft_challenges = Ok
        [\<lparr>challenge_owner = unresolved_ref ''Jaime Lin'',
          group_challenges =
            [\<lparr>description = ''Pricing'', category = ''sales'',
              strategies =
                [\<lparr>summary = ''Offer tiers'', tag = ''pricing'',
                  suggested_by = Some (unresolved_ref ''Pat Osei'')\<rparr>]\<rparr>]\<rparr>],
      draft_marketing = Failed,
      draft_stucks = Ok [],
      draft_sentiment = Ok
        \<lparr>score = 4, sentiment_rationale = ''steady'', sentiment_emotion = ''calm'',
         sentiment_confidence = 9 / 10,
         statements =
           [\<lparr>statement_owner = unresolved_ref ''Jaime Lin'', emotions = [''calm''],
             statement_quotes = [''fine''], statement_is_negative = False\<rparr>]\<rparr>\<rparr>"

section \<open>Properties of the sessions page\<close>

lemma array_set_other: "j < length xs \<Longrightarrow> j \<noteq> i \<Longrightarrow> array_set xs i v ! j = xs ! j"
  by (simp add: array_set_def nth_append)

lemma array_set_same: "array_set xs i v ! i = v"
  by (simp add: array_set_def nth_append)

lemma array_set_length: "i < length xs \<Longrightarrow> length (array_set xs i v) = length xs"
  by (simp add: array_set_def)

text \<open>
  C1, as amended. \<open>handleSaveExtractions\<close> has no readiness test: whenever the page holds a
  session and a draft, its first effect is the save request carrying the whole draft,
  whatever the \<open>needs_manual_review\<close> flags say. No NotReady condition exists in the client.
  The session is closed (session, transcript and draft cleared) exactly when the server
  accepts the request; when the request fails the state is left as it was.
\<close>

theorem save_sent_whether_ready_or_not:
  assumes "currentSession st = Some cs" and "extractionResults st = Some er"
  shows "handleSaveExtractions api st =
           (case api (s_id cs) er of
              Inr _ \<Rightarrow>
                (st\<lparr>currentSession := None, transcript := [], extractionResults := None\<rparr>,
                 [SaveRequest (s_id cs) er, Alert ''Extractions saved successfully!'',
                  LoadSessions (selectedGroup st)])
            | Inl _ \<Rightarrow>
                (st, [SaveRequest (s_id cs) er, ConsoleError ''Failed to save extractions:'',
                      Alert ''Failed to save extractions'']))"
  using assms by (simp add: handleSaveExtractions_def split: sum.splits)

theorem save_sent_witness:
  "\<not> ready example_results \<and>
   handleSaveExtractions accepting_server example_state =
     (example_state\<lparr>currentSession := None, transcript := [], extractionResults := None\<rparr>,
      [SaveRequest 1 example_results, Alert ''Extractions saved successfully!'',
       LoadSessions ''1''])"
  using save_sent_whether_ready_or_not
    [of example_state example_session example_results accepting_server]
  by (simp add: example_state_def example_session_def accepting_server_def ready_def
      example_results_def example_record_def)

text \<open>
  C1 as stated fails: with one attendance record still flagged for review, and a server
  that accepts the request, the save goes through and the session is closed.
\<close>

theorem save_unready_counterexample:
  "\<not> (currentSession (fst (handleSaveExtractions accepting_server example_state)) = None
       \<longrightarrow> ready example_results)"
  by (simp add: handleSaveExtractions_def accepting_server_def example_state_def
      example_results_def example_record_def ready_def)

text \<open>
  C6, as amended. A manual correction of attendance record \<open>i\<close> sets its
  \<open>matched_member_id\<close> to the chosen member and its \<open>needs_manual_review\<close> to false; its
  \<open>confidence_score\<close> stays what it was.
\<close>

theorem correction_sets_member_keeps_confidence:
  assumes "extractionResults st = Some er" and "i < length (attendance er)"
    and "attendance er ! i = Rec r"
  shows "\<exists>er' r'. extractionResults (updateAttendanceMatch i m st) = Some er' \<and>
           attendance er' ! i = Rec r' \<and>
           matched_member_id r' = Some m \<and> needs_manual_review r' = False \<and>
           confidence_score r' = confidence_score r"
  using assms
  by (simp add: updateAttendanceMatch_def array_get_def array_set_same spread_match_def)

theorem correction_witness:
  "\<exists>er' r'. extractionResults (updateAttendanceMatch 0 7 example_state) = Some er' \<and>
     attendance er' ! 0 = Rec r' \<and>
     matched_member_id r' = Some 7 \<and> needs_manual_review r' = False \<and>
     confidence_score r' = 30"
  using correction_sets_member_keeps_confidence
    [of example_state example_results 0 example_record 7]
  by (simp add: example_state_def example_results_def example_record_def)

text \<open>
  C6 as stated fails: the corrected record's confidence is still 30, not 100.
\<close>

theorem correction_confidence_counterexample:
  "\<not> (case extractionResults (updateAttendanceMatch 0 7 example_state) of
        None \<Rightarrow> False
      | Some er \<Rightarrow> (case attendance er ! 0 of Rec r \<Rightarrow> confidence_score r = 100 | _ \<Rightarrow> False))"
  by (simp add: updateAttendanceMatch_def example_state_def example_results_def
      example_record_def array_get_def array_set_def spread_match_def)

lemma set_array_set: "set (array_set xs i v) \<subseteq> insert v (insert Hole (set xs))"
proof (cases "i < length xs")
  case True
  then show ?thesis using set_update_subset_insert [of xs i v] by (auto simp: array_set_def)
next
  case False
  then show ?thesis by (auto simp: array_set_def)
qed

lemma spread_match_has_member: "resolved_has_member (spread_match s m)"
  by (cases s) (simp_all add: spread_match_def)

text \<open>A manual correction keeps that every attendance record not flagged for review
  has a member, for every index and member id.\<close>

lemma correction_keeps_resolved_has_member:
  assumes "extractionResults st = Some er"
    and "list_all resolved_has_member (attendance er)"
  shows "\<exists>er'. extractionResults (updateAttendanceMatch i m st) = Some er' \<and>
           list_all resolved_has_member (attendance er')"
proof -
  let ?v = "spread_match (array_get (attendance er) i) m"
  have "\<forall>s \<in> set (array_set (attendance er) i ?v). resolved_has_member s"
    using set_array_set [of "attendance er" i ?v] assms(2) spread_match_has_member [of _ m]
    by (auto simp: list_all_iff)
  with assms(1) show ?thesis
    by (simp add: updateAttendanceMatch_def list_all_iff)
qed

text \<open>
  C10. \<open>updateAttendanceMatch i m\<close> does nothing when the page holds no draft. Otherwise
  it replaces the draft by one with the same goals, challenges, marketing activities,
  stuck detections and sentiment, and leaves the rest of the page state alone; every
  attendance record other than \<open>i\<close> is the same; and when record \<open>i\<close> exists, the array
  keeps its length and the record keeps its \<open>extracted_name\<close>, \<open>status\<close>, \<open>notes\<close> and
  \<open>confidence_score\<close> (its two other fields are the ones assigned).
\<close>

theorem correction_frame:
  "(extractionResults st = None \<longrightarrow> updateAttendanceMatch i m st = st) \<and>
   (\<forall>er. extractionResults st = Some er \<longrightarrow>
      (\<exists>er'. updateAttendanceMatch i m st = st\<lparr>extractionResults := Some er'\<rparr> \<and>
         goals er' = goals er \<and> challenges er' = challenges er \<and>
         marketing_activities er' = marketing_activities er \<and>
         stuck_detections er' = stuck_detections er \<and> sentiment er' = sentiment er \<and>
         (\<forall>j < length (attendance er). j \<noteq> i \<longrightarrow> attendance er' ! j = attendance er ! j) \<and>
         (i < length (attendance er) \<longrightarrow> length (attendance er') = length (attendance er)) \<and>
         (\<forall>r. i < length (attendance er) \<and> attendance er ! i = Rec r \<longrightarrow>
            (\<exists>r'. attendance er' ! i = Rec r' \<and>
               extracted_name r' = extracted_name r \<and> status r' = status r \<and>
               record_notes r' = record_notes r \<and>
               confidence_score r' = confidence_score r))))"
  by (auto simp: updateAttendanceMatch_def array_set_other array_set_same array_set_length
      array_get_def spread_match_def)

theorem correction_frame_witness:
  "updateAttendanceMatch 0 7 (example_state\<lparr>extractionResults := None\<rparr>) =
     example_state\<lparr>extractionResults := None\<rparr> \<and>
   (\<exists>er'. updateAttendanceMatch 0 7 example_state =
            example_state\<lparr>extractionResults := Some er'\<rparr> \<and>
      goals er' = [] \<and> challenges er' = [] \<and> marketing_activities er' = [] \<and>
      stuck_detections er' = [] \<and> sentiment er' = example_sentiment \<and>
      length (attendance er') = 2 \<and>
      attendance er' ! 1 = Rec example_matched \<and>
      (\<exists>r'. attendance er' ! 0 = Rec r' \<and> extracted_name r' = ''J.'' \<and>
         status r' = present \<and> record_notes r' = None \<and> confidence_score r' = 30))"
proof -
  have n: "extractionResults (example_state\<lparr>extractionResults := None\<rparr>) = None" by simp
  have s: "extractionResults example_state = Some example_results"
    by (simp add: example_state_def)
  have a: "attendance example_results = [Rec example_record, Rec example_matched]"
    by (simp add: example_results_def)
  from correction_frame [of "example_state\<lparr>extractionResults := None\<rparr>" 0 7] n
  have 1: "updateAttendanceMatch 0 7 (example_state\<lparr>extractionResults := None\<rparr>) =
     example_state\<lparr>extractionResults := None\<rparr>" by blast
  from correction_frame [of example_state 0 7] s
  obtain er' where f: "updateAttendanceMatch 0 7 example_state =
        example_state\<lparr>extractionResults := Some er'\<rparr>"
    "goals er' = goals example_results" "challenges er' = challenges example_results"
    "marketing_activities er' = marketing_activities example_results"
    "stuck_detections er' = stuck_detections example_results"
    "sentiment er' = sentiment example_results"
    "\<forall>j < length (attendance example_results). j \<noteq> 0 \<longrightarrow>
        attendance er' ! j = attendance example_results ! j"
    "0 < length (attendance example_results) \<longrightarrow>
        length (attendance er') = length (attendance example_results)"
    "\<forall>r. 0 < length (attendance example_results) \<and> attendance example_results ! 0 = Rec r \<longrightarrow>
            (\<exists>r'. attendance er' ! 0 = Rec r' \<and>
               extracted_name r' = extracted_name r \<and> status r' = status r \<and>
               record_notes r' = record_notes r \<and>
               confidence_score r' = confidence_score r)"
    by blast
  from f(7) a have o: "attendance er' ! 1 = Rec example_matched" by simp
  from f(8) a have l: "length (attendance er') = 2" by simp
  from f(9) a obtain r' where r': "attendance er' ! 0 = Rec r'"
    "extracted_name r' = extracted_name example_record" "status r' = status example_record"
    "record_notes r' = record_notes example_record"
    "confidence_score r' = confidence_score example_record"
    by auto
  from 1 f(1-6) o l r' show ?thesis
    by (auto simp: example_results_def example_record_def)
qed

section \<open>Properties of the store\<close>

lemma insert_row_rows:
  "insert_row st r = Inr st' \<Longrightarrow> rows st' = rows st @ [r] \<and> admissible st r"
  by (auto simp: insert_row_def split: if_splits)

lemma insert_rows_append:
  "insert_rows outage rs st = Inr st' \<Longrightarrow> rows st' = rows st @ rs"
proof (induction rs arbitrary: outage st)
  case Nil
  then show ?case by simp
next
  case (Cons r rs)
  from Cons.prems obtain st1 where s1: "insert_row st r = Inr st1"
    and rest: "insert_rows (map_option (\<lambda>k. k - 1) outage) rs st1 = Inr st'"
    by (auto split: if_splits sum.splits)
  from Cons.IH [OF rest] insert_row_rows [OF s1] show ?case by simp
qed

lemma attendance_ok_snoc:
  assumes "attendance_ok rs" and "admissible st r" and "rows st = rs"
  shows "attendance_ok (rs @ [r])"
proof (cases r)
  case (AttendanceRow i sid mid s n)
  with assms(2) have m: "mid \<noteq> None" and u: "list_all (other_attendance sid mid) (rows st)"
    by (auto simp: member_ok_def split: option.splits)
  have "(sid, mid) \<notin> set (List.map_filter attendance_key rs)"
  proof
    assume "(sid, mid) \<in> set (List.map_filter attendance_key rs)"
    then obtain r' where r': "r' \<in> set rs" "attendance_key r' = Some (sid, mid)"
      by (auto simp: List.map_filter_def)
    from r'(2) obtain i' s' n' where "r' = AttendanceRow i' sid mid s' n'"
      by (cases r') auto
    with u r'(1) assms(3) show False by (auto simp: list_all_iff)
  qed
  with assms(1) m AttendanceRow show ?thesis
    by (simp add: attendance_ok_def List.map_filter_def)
qed (use assms(1) in \<open>simp_all add: attendance_ok_def List.map_filter_def\<close>)

lemma insert_rows_attendance_ok:
  "attendance_ok (rows st) \<Longrightarrow> insert_rows outage rs st = Inr st' \<Longrightarrow> attendance_ok (rows st')"
proof (induction rs arbitrary: outage st)
  case Nil
  then show ?case by simp
next
  case (Cons r rs)
  from Cons.prems(2) obtain st1 where s1: "insert_row st r = Inr st1"
    and rest: "insert_rows (map_option (\<lambda>k. k - 1) outage) rs st1 = Inr st'"
    by (auto split: if_splits sum.splits)
  from insert_row_rows [OF s1] Cons.prems(1) have "attendance_ok (rows st1)"
    by (simp add: attendance_ok_snoc [where st = st])
  from Cons.IH [OF this rest] show ?case .
qed

text \<open>
  C9. Take a store whose attendance rows satisfy the table's constraints, and a
  transaction whose inserts the store all accepts (a successful commit). Afterwards the
  store holds the old rows and the new ones, every attendance row has a member (those of
  the transaction among them), and no two attendance rows share session and member. An
  attendance row with a NULL member is rejected by the insert and not written.
\<close>

theorem attendance_rows_have_member_and_are_unique:
  assumes "attendance_ok (rows st)" and "insert_rows outage rs st = Inr st'"
  shows "rows st' = rows st @ rs \<and> attendance_ok (rows st') \<and> list_all has_member rs \<and>
         insert_row st' (AttendanceRow i sid None s n) =
           Inl (ConstraintViolation (AttendanceRow i sid None s n))"
proof (intro conjI)
  from assms(2) show r: "rows st' = rows st @ rs" by (rule insert_rows_append)
  from assms show a: "attendance_ok (rows st')" by (rule insert_rows_attendance_ok)
  from a r show "list_all has_member rs" by (simp add: attendance_ok_def)
  show "insert_row st' (AttendanceRow i sid None s n) =
          Inl (ConstraintViolation (AttendanceRow i sid None s n))"
    by (simp add: insert_row_def member_ok_def)
qed

theorem attendance_rows_witness:
  "attendance_ok (rows example_store) \<and>
   insert_rows None
     [AttendanceRow 1 1 (Some 7) present None, AttendanceRow 2 1 (Some 8) travelling None]
     example_store =
     Inr (example_store\<lparr>rows :=
       [AttendanceRow 1 1 (Some 7) present None, AttendanceRow 2 1 (Some 8) travelling None]\<rparr>) \<and>
   attendance_ok
     [AttendanceRow 1 1 (Some 7) present None, AttendanceRow 2 1 (Some 8) travelling None] \<and>
   list_all has_member
     [AttendanceRow 1 1 (Some 7) present None, AttendanceRow 2 1 (Some 8) travelling None] \<and>
   insert_row
     (example_store\<lparr>rows :=
       [AttendanceRow 1 1 (Some 7) present None, AttendanceRow 2 1 (Some 8) travelling None]\<rparr>)
     (AttendanceRow 3 1 None present None) =
     Inl (ConstraintViolation (AttendanceRow 3 1 None present None))"
proof -
  have ok: "attendance_ok (rows example_store)"
    by (simp add: example_store_def attendance_ok_def List.map_filter_def)
  have ins: "insert_rows None
     [AttendanceRow 1 1 (Some 7) present None, AttendanceRow 2 1 (Some 8) travelling None]
     example_store =
     Inr (example_store\<lparr>rows :=
       [AttendanceRow 1 1 (Some 7) present None, AttendanceRow 2 1 (Some 8) travelling None]\<rparr>)"
    by (simp add: example_store_def insert_row_def pk_free_def member_ok_def session_ok_def)
  from attendance_rows_have_member_and_are_unique [OF ok ins, of 3 1 present None] ok ins
  show ?thesis by (simp add: example_store_def)
qed

section \<open>Properties of the Entity Reconciler\<close>

lemma raw_name_resolve_ref [simp]: "raw_name (resolve_ref P roster r) = raw_name r"
  by (simp add: resolve_ref_def)

lemma resolution_resolve_ref:
  "resolution (resolve_ref P roster r) = Some (decide P roster (raw_name r))"
  by (simp add: resolve_ref_def)

lemma resolve_ref_idem: "resolve_ref P roster (resolve_ref P roster r) = resolve_ref P roster r"
  by (simp add: resolve_ref_def)

lemma resolve_attendance_idem:
  "resolve_attendance P roster (resolve_attendance P roster a) = resolve_attendance P roster a"
  by (simp add: resolve_attendance_def resolve_ref_idem)

lemma resolve_goal_idem:
  "resolve_goal P roster (resolve_goal P roster g) = resolve_goal P roster g"
  by (simp add: resolve_goal_def resolve_ref_idem)

lemma resolve_strategy_idem:
  "resolve_strategy P roster (resolve_strategy P roster s) = resolve_strategy P roster s"
  by (cases "suggested_by s") (simp_all add: resolve_strategy_def resolve_ref_idem)

lemma resolve_challenge_idem:
  "resolve_challenge P roster (resolve_challenge P roster c) = resolve_challenge P roster c"
  by (simp add: resolve_challenge_def resolve_strategy_idem o_def)

lemma resolve_group_idem:
  "resolve_group P roster (resolve_group P roster g) = resolve_group P roster g"
  by (simp add: resolve_group_def resolve_ref_idem resolve_challenge_idem o_def)

lemma resolve_marketing_idem:
  "resolve_marketing P roster (resolve_marketing P roster g) = resolve_marketing P roster g"
  by (simp add: resolve_marketing_def resolve_ref_idem)

lemma resolve_stuck_idem:
  "resolve_stuck P roster (resolve_stuck P roster k) = resolve_stuck P roster k"
  by (simp add: resolve_stuck_def resolve_ref_idem)

lemma resolve_statement_idem:
  "resolve_statement P roster (resolve_statement P roster t) = resolve_statement P roster t"
  by (simp add: resolve_statement_def resolve_ref_idem)

lemma resolve_sentiment_idem:
  "resolve_sentiment P roster (resolve_sentiment P roster s) = resolve_sentiment P roster s"
  by (simp add: resolve_sentiment_def resolve_statement_idem o_def)

lemma map_extracted_idem:
  "(\<And>x. f (f x) = f x) \<Longrightarrow> map_extracted f (map_extracted f e) = map_extracted f e"
  by (cases e) simp_all

lemma map_idem: "(\<And>x. f (f x) = f x) \<Longrightarrow> map f (map f xs) = map f xs"
  by simp

lemma strategy_refs_resolve:
  "strategy_refs (resolve_strategy P roster s) = map (resolve_ref P roster) (strategy_refs s)"
  by (cases "suggested_by s") (simp_all add: strategy_refs_def resolve_strategy_def)

lemma challenge_refs_resolve:
  "challenge_refs (resolve_challenge P roster c) = map (resolve_ref P roster) (challenge_refs c)"
  by (simp add: challenge_refs_def resolve_challenge_def map_concat o_def strategy_refs_resolve)

lemma group_refs_resolve:
  "group_refs (resolve_group P roster g) = map (resolve_ref P roster) (group_refs g)"
  by (simp add: group_refs_def resolve_group_def map_concat o_def challenge_refs_resolve)

lemma extracted_refs_map:
  "(\<And>x. f (g x) = map h (f x)) \<Longrightarrow>
   extracted_refs f (map_extracted g e) = map h (extracted_refs f e)"
  by (cases e) simp_all

lemma foldl_best:
  fixes c :: "Member \<times> rat"
  shows "foldl (\<lambda>b x. if snd b < snd x then x else b) c cs \<in> set (c # cs) \<and>
   (\<forall>x \<in> set (c # cs). snd x \<le> snd (foldl (\<lambda>b x. if snd b < snd x then x else b) c cs))"
proof (induction cs arbitrary: c)
  case Nil
  then show ?case by simp
next
  case (Cons a cs)
  let ?f = "\<lambda>(b :: Member \<times> rat) x. if snd b < snd x then x else b"
  show ?case
  proof (cases "snd c < snd a")
    case True
    then have eq: "foldl ?f c (a # cs) = foldl ?f a cs" by simp
    from Cons.IH [of a] have mem: "foldl ?f a cs \<in> set (a # cs)"
      and mx: "\<forall>x \<in> set (a # cs). snd x \<le> snd (foldl ?f a cs)" by blast+
    from mx have "snd a \<le> snd (foldl ?f a cs)" by simp
    with True have "snd c \<le> snd (foldl ?f a cs)" by linarith
    with mem mx show ?thesis unfolding eq by simp
  next
    case False
    then have eq: "foldl ?f c (a # cs) = foldl ?f c cs" by simp
    from Cons.IH [of c] have mem: "foldl ?f c cs \<in> set (c # cs)"
      and mx: "\<forall>x \<in> set (c # cs). snd x \<le> snd (foldl ?f c cs)" by blast+
    from mx have "snd c \<le> snd (foldl ?f c cs)" by simp
    with False have "snd a \<le> snd (foldl ?f c cs)" by linarith
    with mem mx show ?thesis unfolding eq by auto
  qed
qed

lemma best_candidate_in:
  assumes "best_candidate cs = Some b"
  shows "b \<in> set cs"
proof (cases cs)
  case Nil
  with assms show ?thesis by simp
next
  case (Cons c cs')
  with assms have "b = foldl (\<lambda>b x. if snd b < snd x then x else b) c cs'" by simp
  moreover from foldl_best [of c cs']
  have "foldl (\<lambda>b x. if snd b < snd x then x else b) c cs' \<in> set (c # cs')"
    by (rule conjunct1)
  ultimately show ?thesis using Cons by simp
qed

lemma best_candidate_max:
  assumes "best_candidate cs = Some b" and "x \<in> set cs"
  shows "snd x \<le> snd b"
proof (cases cs)
  case Nil
  with assms show ?thesis by simp
next
  case (Cons c cs')
  with assms have "b = foldl (\<lambda>b x. if snd b < snd x then x else b) c cs'" by simp
  moreover from foldl_best [of c cs']
  have "\<forall>x \<in> set (c # cs').
          snd x \<le> snd (foldl (\<lambda>b x. if snd b < snd x then x else b) c cs')"
    by (rule conjunct2)
  ultimately show ?thesis using Cons assms(2) by blast
qed

lemma best_candidate_None: "best_candidate cs = None \<longleftrightarrow> cs = []"
  by (cases cs) simp_all

lemma filter_at_most_one:
  assumes "distinct xs" and "\<forall>x \<in> set xs. Q x \<longrightarrow> x = m"
  shows "length (filter Q xs) \<le> 1"
  using assms
proof (induction xs)
  case Nil
  then show ?case by simp
next
  case (Cons a xs)
  from Cons.prems have d: "distinct xs" and q: "\<forall>x \<in> set xs. Q x \<longrightarrow> x = m"
    and a: "a \<notin> set xs" by simp_all
  from Cons.IH [OF d q] have ih: "length (filter Q xs) \<le> 1" .
  show ?case
  proof (cases "Q a")
    case True
    with Cons.prems(2) have am: "a = m" by simp
    have "\<forall>y \<in> set xs. \<not> Q y"
    proof
      fix y assume y: "y \<in> set xs"
      show "\<not> Q y"
      proof
        assume "Q y"
        with q y have "y = m" by blast
        with am a y show False by blast
      qed
    qed
    then have "filter Q xs = []" by (simp add: filter_empty_conv)
    with True show ?thesis by simp
  next
    case False
    with ih show ?thesis by simp
  qed
qed

lemma refs_resolve: "refs (resolve P roster d) = map (resolve_ref P roster) (refs d)"
proof -
  have 1: "extracted_refs (map da_ref)
      (map_extracted (map (resolve_attendance P roster)) (draft_attendance d)) =
      map (resolve_ref P roster) (extracted_refs (map da_ref) (draft_attendance d))"
    by (rule extracted_refs_map) (simp add: resolve_attendance_def)
  have 2: "extracted_refs (map goal_owner)
      (map_extracted (map (resolve_goal P roster)) (draft_goals d)) =
      map (resolve_ref P roster) (extracted_refs (map goal_owner) (draft_goals d))"
    by (rule extracted_refs_map) (simp add: resolve_goal_def)
  have 3: "extracted_refs (\<lambda>gs. concat (map group_refs gs))
      (map_extracted (map (resolve_group P roster)) (draft_challenges d)) =
      map (resolve_ref P roster)
        (extracted_refs (\<lambda>gs. concat (map group_refs gs)) (draft_challenges d))"
    by (rule extracted_refs_map) (simp add: map_concat o_def group_refs_resolve)
  have 4: "extracted_refs (map marketing_owner)
      (map_extracted (map (resolve_marketing P roster)) (draft_marketing d)) =
      map (resolve_ref P roster) (extracted_refs (map marketing_owner) (draft_marketing d))"
    by (rule extracted_refs_map) (simp add: resolve_marketing_def)
  have 5: "extracted_refs (map stuck_owner)
      (map_extracted (map (resolve_stuck P roster)) (draft_stucks d)) =
      map (resolve_ref P roster) (extracted_refs (map stuck_owner) (draft_stucks d))"
    by (rule extracted_refs_map) (simp add: resolve_stuck_def)
  have 6: "extracted_refs (\<lambda>s. map statement_owner (statements s))
      (map_extracted (resolve_sentiment P roster) (draft_sentiment d)) =
      map (resolve_ref P roster)
        (extracted_refs (\<lambda>s. map statement_owner (statements s)) (draft_sentiment d))"
    by (rule extracted_refs_map) (simp add: resolve_sentiment_def resolve_statement_def)
  show ?thesis
    unfolding refs_def resolve_def by (simp add: 1 2 3 4 5 6)
qed

lemma decide_high_unique:
  assumes "distinct roster" and "0 \<le> tie_margin P" and "m \<in> set roster"
    and "high_confidence_threshold P \<le> similarity P raw (m_name m)"
    and "\<forall>m' \<in> set roster. m' \<noteq> m \<longrightarrow>
           similarity P raw (m_name m') < similarity P raw (m_name m) - tie_margin P"
  shows "decide P roster raw =
           \<lparr>member_id = Some (m_id m), confidence = similarity P raw (m_name m),
            needs_review = False\<rparr>"
proof -
  let ?s = "similarity P raw (m_name m)"
  let ?cs = "scored P roster raw"
  have mem: "(m, ?s) \<in> set ?cs" using assms(3) by (auto simp: scored_def)
  then have "?cs \<noteq> []" by auto
  then obtain b where b: "best_candidate ?cs = Some b"
    by (cases "best_candidate ?cs") (simp_all add: best_candidate_None)
  from best_candidate_in [OF b] obtain m' where m': "m' \<in> set roster"
    "b = (m', similarity P raw (m_name m'))" by (auto simp: scored_def)
  from best_candidate_max [OF b mem] m' have le: "?s \<le> similarity P raw (m_name m')" by simp
  have "m' = m"
  proof (rule ccontr)
    assume "m' \<noteq> m"
    with assms(5) m'(1) have "similarity P raw (m_name m') < ?s - tie_margin P" by blast
    with le assms(2) show False by linarith
  qed
  with b m' have best: "best_candidate ?cs = Some (m, ?s)" by simp
  have "length (filter (\<lambda>c. ?s - snd c \<le> tie_margin P) ?cs) =
        length (filter (\<lambda>x. ?s - similarity P raw (m_name x) \<le> tie_margin P) roster)"
    by (simp add: scored_def filter_map o_def)
  also have "\<dots> \<le> 1"
  proof (rule filter_at_most_one [where m = m, OF assms(1)], intro ballI impI)
    fix x assume x: "x \<in> set roster"
      and c: "?s - similarity P raw (m_name x) \<le> tie_margin P"
    show "x = m"
    proof (rule ccontr)
      assume "x \<noteq> m"
      with assms(5) x have "similarity P raw (m_name x) < ?s - tie_margin P" by blast
      with c show False by linarith
    qed
  qed
  finally have "uniquely_highest P ?cs ?s" by (simp add: uniquely_highest_def)
  with best assms(4) show ?thesis by (simp add: decide_def)
qed

lemma decide_no_candidate:
  assumes "review_threshold P \<le> high_confidence_threshold P"
    and "roster = [] \<or> (\<forall>m \<in> set roster. similarity P raw (m_name m) < review_threshold P)"
  shows "member_id (decide P roster raw) = None \<and> needs_review (decide P roster raw) = True"
proof (cases "best_candidate (scored P roster raw)")
  case None
  then show ?thesis by (simp add: decide_def)
next
  case (Some b)
  obtain m s where ms: "b = (m, s)" by (cases b)
  from best_candidate_in [OF Some] ms have "(m, s) \<in> set (scored P roster raw)" by simp
  then have "m \<in> set roster" "s = similarity P raw (m_name m)" by (auto simp: scored_def)
  with assms(2) have "s < review_threshold P" by auto
  with assms(1) Some ms show ?thesis by (simp add: decide_def)
qed

text \<open>
  C3. Take a roster without repeated members and a margin that is not negative. After
  \<open>resolve\<close>, every reference of the draft for which some member \<open>m\<close> scores at least
  \<open>high_confidence_threshold\<close>, every other member scoring lower by more than the margin
  (for a margin of zero: strictly lower), is resolved to \<open>m\<close> with that score as its
  confidence and \<open>needs_review = false\<close>.
\<close>

theorem high_unique_auto_resolved:
  assumes "distinct roster" and "0 \<le> tie_margin P"
    and "r \<in> set (refs (resolve P roster d))"
    and "m \<in> set roster"
    and "high_confidence_threshold P \<le> similarity P (raw_name r) (m_name m)"
    and "\<forall>m' \<in> set roster. m' \<noteq> m \<longrightarrow>
           similarity P (raw_name r) (m_name m') <
           similarity P (raw_name r) (m_name m) - tie_margin P"
  shows "resolution r =
           Some \<lparr>member_id = Some (m_id m),
                 confidence = similarity P (raw_name r) (m_name m), needs_review = False\<rparr>"
proof -
  from assms(3) obtain r0 where r0: "r = resolve_ref P roster r0"
    by (auto simp: refs_resolve)
  then have "resolution r = Some (decide P roster (raw_name r))"
    by (simp add: resolution_resolve_ref)
  with decide_high_unique [OF assms(1,2,4,5,6)] show ?thesis by simp
qed

text \<open>
  C4. The thresholds being in the order the specification presumes, after \<open>resolve\<close>
  every reference of the draft with no candidate (the roster is empty, or every member
  scores below \<open>review_threshold\<close>) has a resolution with no member and
  \<open>needs_review = true\<close>.
\<close>

theorem no_candidate_stays_unresolved:
  assumes "review_threshold P \<le> high_confidence_threshold P"
    and "r \<in> set (refs (resolve P roster d))"
    and "roster = [] \<or>
         (\<forall>m \<in> set roster. similarity P (raw_name r) (m_name m) < review_threshold P)"
  shows "\<exists>res. resolution r = Some res \<and> member_id res = None \<and> needs_review res = True"
proof -
  from assms(2) obtain r0 where r0: "r = resolve_ref P roster r0"
    by (auto simp: refs_resolve)
  then have "resolution r = Some (decide P roster (raw_name r))"
    by (simp add: resolution_resolve_ref)
  with decide_no_candidate [OF assms(1,3)] show ?thesis by simp
qed

text \<open>
  C8. Running \<open>resolve\<close> on an already resolved draft, with the same policy and roster,
  gives the same draft, and so the same resolution on every reference.
\<close>

theorem resolve_idempotent:
  "resolve P roster (resolve P roster d) = resolve P roster d \<and>
   map resolution (refs (resolve P roster (resolve P roster d))) =
   map resolution (refs (resolve P roster d))"
proof -
  have "resolve P roster (resolve P roster d) = resolve P roster d"
    unfolding resolve_def
    by (simp add: map_extracted_idem map_idem resolve_attendance_idem resolve_goal_idem
        resolve_group_idem resolve_marketing_idem resolve_stuck_idem resolve_sentiment_idem)
  then show ?thesis by simp
qed

lemma sim_jaime_jamie: "example_similarity ''Jaime Lin'' ''Jamie Lin'' = 1"
  by (simp add: example_similarity_def)

lemma sim_jaime_pat: "example_similarity ''Jaime Lin'' ''Pat Osei'' = 4 / 9"
  by (simp add: example_similarity_def)

lemma sim_j_jamie: "example_similarity ''J.'' ''Jamie Lin'' = 1 / 9"
  by (simp add: example_similarity_def)

lemma sim_j_pat: "example_similarity ''J.'' ''Pat Osei'' = 0"
  by (simp add: example_similarity_def)

lemma example_refs:
  "refs example_draft =
     [unresolved_ref ''Jaime Lin'', unresolved_ref ''J.'', unresolved_ref ''Pat Osei'',
      unresolved_ref ''Jaime Lin'', unresolved_ref ''Pat Osei'', unresolved_ref ''Jaime Lin'']"
  by (simp add: refs_def example_draft_def group_refs_def challenge_refs_def strategy_refs_def)

theorem high_unique_witness:
  "distinct example_roster \<and> 0 \<le> tie_margin example_policy \<and>
   resolve_ref example_policy example_roster (unresolved_ref ''Jaime Lin'')
     \<in> set (refs (resolve example_policy example_roster example_draft)) \<and>
   jamie \<in> set example_roster \<and>
   high_confidence_threshold example_policy \<le> similarity example_policy ''Jaime Lin'' (m_name jamie) \<and>
   example_roster = [jamie, pat] \<and>
   similarity example_policy ''Jaime Lin'' (m_name pat) <
     similarity example_policy ''Jaime Lin'' (m_name jamie) - tie_margin example_policy \<and>
   resolution (resolve_ref example_policy example_roster (unresolved_ref ''Jaime Lin'')) =
     Some \<lparr>member_id = Some 7, confidence = 1, needs_review = False\<rparr>"
proof -
  let ?r = "resolve_ref example_policy example_roster (unresolved_ref ''Jaime Lin'')"
  have raw: "raw_name ?r = ''Jaime Lin''" by (simp add: resolve_ref_def unresolved_ref_def)
  have d: "distinct example_roster" by (simp add: example_roster_def jamie_def pat_def)
  have t: "0 \<le> tie_margin example_policy" by (simp add: example_policy_def)
  have r: "?r \<in> set (refs (resolve example_policy example_roster example_draft))"
    by (simp add: refs_resolve example_refs)
  have m: "jamie \<in> set example_roster" by (simp add: example_roster_def)
  have h: "high_confidence_threshold example_policy \<le>
           similarity example_policy (raw_name ?r) (m_name jamie)"
    by (simp add: raw unresolved_ref_def example_policy_def jamie_def sim_jaime_jamie)
  have u: "\<forall>m' \<in> set example_roster. m' \<noteq> jamie \<longrightarrow>
      similarity example_policy (raw_name ?r) (m_name m') <
      similarity example_policy (raw_name ?r) (m_name jamie) - tie_margin example_policy"
    by (simp add: raw unresolved_ref_def example_roster_def example_policy_def jamie_def pat_def
        sim_jaime_jamie sim_jaime_pat)
  have p: "similarity example_policy ''Jaime Lin'' (m_name pat) <
     similarity example_policy ''Jaime Lin'' (m_name jamie) - tie_margin example_policy"
    by (simp add: example_policy_def jamie_def pat_def sim_jaime_jamie sim_jaime_pat)
  have j: "m_id jamie = 7" "similarity example_policy ''Jaime Lin'' (m_name jamie) = 1"
    by (simp_all add: example_policy_def jamie_def sim_jaime_jamie)
  from high_unique_auto_resolved [OF d t r m h u]
  have "resolution ?r = Some \<lparr>member_id = Some 7, confidence = 1, needs_review = False\<rparr>"
    by (simp add: raw [simplified] j unresolved_ref_def)
  with d t r m h p j show ?thesis
    by (simp add: example_roster_def unresolved_ref_def)
qed

theorem no_candidate_witness:
  "review_threshold example_policy \<le> high_confidence_threshold example_policy \<and>
   resolve_ref example_policy example_roster (unresolved_ref ''J.'')
     \<in> set (refs (resolve example_policy example_roster example_draft)) \<and>
   example_roster = [jamie, pat] \<and>
   similarity example_policy ''J.'' (m_name jamie) < review_threshold example_policy \<and>
   similarity example_policy ''J.'' (m_name pat) < review_threshold example_policy \<and>
   (\<exists>res. resolution (resolve_ref example_policy example_roster (unresolved_ref ''J.'')) =
            Some res \<and> member_id res = None \<and> needs_review res = True)"
proof -
  let ?r = "resolve_ref example_policy example_roster (unresolved_ref ''J.'')"
  have raw: "raw_name ?r = ''J.''" by (simp add: resolve_ref_def unresolved_ref_def)
  have o: "review_threshold example_policy \<le> high_confidence_threshold example_policy"
    by (simp add: example_policy_def)
  have r: "?r \<in> set (refs (resolve example_policy example_roster example_draft))"
    by (simp add: refs_resolve example_refs)
  have l: "\<forall>m \<in> set example_roster.
      similarity example_policy (raw_name ?r) (m_name m) < review_threshold example_policy"
    by (simp add: raw unresolved_ref_def example_roster_def example_policy_def jamie_def pat_def
        sim_j_jamie sim_j_pat)
  from l have c: "example_roster = [] \<or> (\<forall>m \<in> set example_roster.
      similarity example_policy (raw_name ?r) (m_name m) < review_threshold example_policy)"
    by simp
  from no_candidate_stays_unresolved [OF o r c] o r l show ?thesis
    by (simp add: raw unresolved_ref_def example_roster_def)
qed

subsection \<open>The invariant of a name reference\<close>

lemma decide_invariant:
  assumes "review_threshold P \<le> high_confidence_threshold P"
  shows "(needs_review (decide P roster raw) \<or> member_id (decide P roster raw) \<noteq> None) \<and>
         (confidence (decide P roster raw) < review_threshold P \<longrightarrow>
            needs_review (decide P roster raw)) \<and>
         (roster = [] \<or>
          (\<forall>m \<in> set roster. similarity P raw (m_name m) < review_threshold P) \<longrightarrow>
            needs_review (decide P roster raw))"
proof (intro conjI impI)
  show "needs_review (decide P roster raw) \<or> member_id (decide P roster raw) \<noteq> None"
    by (simp add: decide_def split: option.splits prod.splits)
next
  assume "confidence (decide P roster raw) < review_threshold P"
  with assms show "needs_review (decide P roster raw)"
    by (simp add: decide_def split: option.splits prod.splits if_splits)
next
  assume "roster = [] \<or>
          (\<forall>m \<in> set roster. similarity P raw (m_name m) < review_threshold P)"
  with decide_no_candidate [OF assms] show "needs_review (decide P roster raw)" by blast
qed

text \<open>
  C5, as amended. Reconciliation keeps both halves of the invariant, the thresholds being
  in the order the specification presumes: after \<open>resolve\<close> every reference of the draft
  has a resolution that names a member unless it needs review, and that needs review
  whenever its confidence is below \<open>review_threshold\<close> or there is no candidate (an empty
  roster, or every member scoring below \<open>review_threshold\<close>). Manual correction keeps the
  first half: if every attendance record with \<open>needs_manual_review == false\<close> has a
  member before \<open>updateAttendanceMatch\<close>, the same holds after it.
\<close>

theorem invariant_kept_by_reconciliation_and_correction:
  assumes "review_threshold P \<le> high_confidence_threshold P"
    and "extractionResults st = Some er"
    and "list_all resolved_has_member (attendance er)"
  shows "(\<forall>r \<in> set (refs (resolve P roster d)).
            \<exists>res. resolution r = Some res \<and>
              (needs_review res \<or> member_id res \<noteq> None) \<and>
              (confidence res < review_threshold P \<longrightarrow> needs_review res) \<and>
              (roster = [] \<or>
               (\<forall>m \<in> set roster.
                  similarity P (raw_name r) (m_name m) < review_threshold P) \<longrightarrow>
                 needs_review res)) \<and>
         (\<exists>er'. extractionResults (updateAttendanceMatch i m st) = Some er' \<and>
            list_all resolved_has_member (attendance er'))"
proof (intro conjI ballI)
  fix r assume "r \<in> set (refs (resolve P roster d))"
  then obtain r0 where "r = resolve_ref P roster r0" by (auto simp: refs_resolve)
  then have res: "resolution r = Some (decide P roster (raw_name r))"
    by (simp add: resolution_resolve_ref)
  from decide_invariant [OF assms(1), of roster "raw_name r"] res
  show "\<exists>res. resolution r = Some res \<and>
              (needs_review res \<or> member_id res \<noteq> None) \<and>
              (confidence res < review_threshold P \<longrightarrow> needs_review res) \<and>
              (roster = [] \<or>
               (\<forall>m \<in> set roster.
                  similarity P (raw_name r) (m_name m) < review_threshold P) \<longrightarrow>
                 needs_review res)"
    by simp
next
  from assms(2,3)
  show "\<exists>er'. extractionResults (updateAttendanceMatch i m st) = Some er' \<and>
          list_all resolved_has_member (attendance er')"
    by (rule correction_keeps_resolved_has_member)
qed

theorem invariant_kept_witness:
  "review_threshold example_policy \<le> high_confidence_threshold example_policy \<and>
   extractionResults example_state = Some example_results \<and>
   list_all resolved_has_member (attendance example_results) \<and>
   resolve_ref example_policy example_roster (unresolved_ref ''J.'')
     \<in> set (refs (resolve example_policy example_roster example_draft)) \<and>
   (\<exists>res. resolution (resolve_ref example_policy example_roster (unresolved_ref ''J.'')) =
            Some res \<and>
      (needs_review res \<or> member_id res \<noteq> None) \<and>
      (confidence res < review_threshold example_policy \<longrightarrow> needs_review res)) \<and>
   (\<exists>er'. extractionResults (updateAttendanceMatch 0 7 example_state) = Some er' \<and>
      list_all resolved_has_member (attendance er'))"
proof -
  let ?r = "resolve_ref example_policy example_roster (unresolved_ref ''J.'')"
  have o: "review_threshold example_policy \<le> high_confidence_threshold example_policy"
    by (simp add: example_policy_def)
  have e: "extractionResults example_state = Some example_results"
    by (simp add: example_state_def)
  have h: "list_all resolved_has_member (attendance example_results)"
    by (simp add: example_results_def example_record_def example_matched_def)
  have r: "?r \<in> set (refs (resolve example_policy example_roster example_draft))"
    by (simp add: refs_resolve example_refs)
  note t = invariant_kept_by_reconciliation_and_correction
    [OF o e h, of example_roster example_draft 0 7]
  from t r have 1: "\<exists>res. resolution ?r = Some res \<and>
      (needs_review res \<or> member_id res \<noteq> None) \<and>
      (confidence res < review_threshold example_policy \<longrightarrow> needs_review res)"
    by blast
  from t have 2: "\<exists>er'. extractionResults (updateAttendanceMatch 0 7 example_state) = Some er' \<and>
      list_all resolved_has_member (attendance er')"
    by blast
  from o e h r 1 2 show ?thesis by blast
qed

text \<open>
  C5 as stated fails for manual correction, the second half of the invariant and a review
  threshold of 50
  (0.5 on the scale of the displayed percentage): both halves hold of the example draft,
  and after the first record (confidence 30) is corrected by hand its
  \<open>needs_manual_review\<close> is false although its confidence is still below the threshold.
\<close>

theorem correction_invariant_counterexample:
  "\<not> (list_all (\<lambda>s. resolved_has_member s \<and> low_confidence_flagged 50 s)
         (attendance example_results)
       \<longrightarrow> (case extractionResults (updateAttendanceMatch 0 7 example_state) of
              None \<Rightarrow> False
            | Some er \<Rightarrow>
                list_all (\<lambda>s. resolved_has_member s \<and> low_confidence_flagged 50 s)
                  (attendance er)))"
  by (simp add: updateAttendanceMatch_def example_state_def example_results_def
      example_record_def example_matched_def array_get_def array_set_def spread_match_def)

section \<open>Properties of the Persistence Writer\<close>

text \<open>
  C2. A commit ends in one of two ways. Either it fails with a \<open>PersistenceFailure\<close>
  (an insert was refused, or the store became unavailable) and the store it returns is
  the store it started from: no row of the commit is in it. Or it succeeds and the store
  holds, after the rows it had, every planned row of the commit, in order.
\<close>

theorem commit_all_or_nothing:
  "(\<exists>e. commit outage sid d st = (Inl (PersistenceFailure e), st) \<and>
        insert_rows outage (plan (next_id st) sid d) st = Inl e) \<or>
   (\<exists>rep st'. commit outage sid d st = (Inr rep, st') \<and>
        rows st' = rows st @ plan (next_id st) sid d \<and>
        members st' = members st \<and> sessions st' = sessions st)"
proof (cases "insert_rows outage (plan (next_id st) sid d) st")
  case (Inl e)
  then show ?thesis by (simp add: commit_def)
next
  case (Inr st')
  have keep: "\<And>rs o' s s'. insert_rows o' rs s = Inr s' \<Longrightarrow>
               members s' = members s \<and> sessions s' = sessions s"
  proof -
    fix rs o' s s'
    show "insert_rows o' rs s = Inr s' \<Longrightarrow> members s' = members s \<and> sessions s' = sessions s"
    proof (induction rs arbitrary: o' s)
      case Nil
      then show ?case by simp
    next
      case (Cons r rs)
      from Cons.prems obtain s1 where s1: "insert_row s r = Inr s1"
        and rest: "insert_rows (map_option (\<lambda>k. k - 1) o') rs s1 = Inr s'"
        by (auto split: if_splits sum.splits)
      from s1 have "members s1 = members s \<and> sessions s1 = sessions s"
        by (auto simp: insert_row_def split: if_splits)
      with Cons.IH [OF rest] show ?case by simp
    qed
  qed
  from Inr insert_rows_append [OF Inr] keep [OF Inr] show ?thesis
    by (simp add: commit_def)
qed

lemma sim_pat_jamie: "example_similarity ''Pat Osei'' ''Jamie Lin'' = 4 / 9"
  by (simp add: example_similarity_def)

lemma sim_pat_pat: "example_similarity ''Pat Osei'' ''Pat Osei'' = 1"
  by (simp add: example_similarity_def)

lemma decide_jaime: "decide example_policy example_roster ''Jaime Lin'' =
   \<lparr>member_id = Some 7, confidence = 1, needs_review = False\<rparr>"
  by (simp add: decide_def scored_def example_roster_def example_policy_def jamie_def pat_def
      uniquely_highest_def sim_jaime_jamie sim_jaime_pat)

lemma decide_j: "decide example_policy example_roster ''J.'' =
   \<lparr>member_id = None, confidence = 1 / 9, needs_review = True\<rparr>"
  by (simp add: decide_def scored_def example_roster_def example_policy_def jamie_def pat_def
      uniquely_highest_def sim_j_jamie sim_j_pat)

lemma decide_pat: "decide example_policy example_roster ''Pat Osei'' =
   \<lparr>member_id = Some 8, confidence = 1, needs_review = False\<rparr>"
  by (simp add: decide_def scored_def example_roster_def example_policy_def jamie_def pat_def
      uniquely_highest_def sim_pat_jamie sim_pat_pat)

lemma example_plan:
  "plan 1 1 (resolve example_policy example_roster example_draft) =
     [AttendanceRow 1 1 (Some 7) present None,
      GoalRow 2 (Some 8) 1 ''Call ten leads'' False,
      ChallengeRow 3 (Some 7) 1 ''Pricing'' ''sales'',
      StrategyRow 4 3 (Some 8) ''Offer tiers'' ''pricing'',
      SentimentRow 5 1 4 ''steady'' ''calm'' (9 / 10),
      StatementRow 6 5 (Some 7) [''calm''] [''fine''] False]"
  by (simp add: plan_def resolve_def example_draft_def resolve_attendance_def resolve_goal_def
      resolve_group_def resolve_challenge_def resolve_strategy_def resolve_sentiment_def
      resolve_statement_def resolve_ref_def unresolved_ref_def member_of_def plan_sentiment_def
      decide_jaime decide_j decide_pat Let_def)

theorem commit_witness:
  "commit (Some 3) 1 (resolve example_policy example_roster example_draft) example_store =
     (Inl (PersistenceFailure StoreUnavailable), example_store) \<and>
   (\<exists>rep. commit None 1 (resolve example_policy example_roster example_draft) example_store =
     (Inr rep, example_store\<lparr>rows :=
       [AttendanceRow 1 1 (Some 7) present None,
        GoalRow 2 (Some 8) 1 ''Call ten leads'' False,
        ChallengeRow 3 (Some 7) 1 ''Pricing'' ''sales'',
        StrategyRow 4 3 (Some 8) ''Offer tiers'' ''pricing'',
        SentimentRow 5 1 4 ''steady'' ''calm'' (9 / 10),
        StatementRow 6 5 (Some 7) [''calm''] [''fine''] False]\<rparr>))"
proof -
  let ?d = "resolve example_policy example_roster example_draft"
  have n: "next_id example_store = 1" by (simp add: next_id_def example_store_def)
  have f: "insert_rows (Some 3) (plan (next_id example_store) 1 ?d) example_store =
             Inl StoreUnavailable"
    unfolding n example_plan
    by (simp add: example_store_def insert_row_def pk_free_def member_ok_def
        session_ok_def nullable_member_ok_def)
  have s: "insert_rows None (plan (next_id example_store) 1 ?d) example_store =
             Inr (example_store\<lparr>rows := plan 1 1 ?d\<rparr>)"
    unfolding n example_plan
    by (simp add: example_store_def insert_row_def pk_free_def member_ok_def
        session_ok_def nullable_member_ok_def)
  from commit_all_or_nothing [of "Some 3" 1 ?d example_store] f
  have 1: "commit (Some 3) 1 ?d example_store =
             (Inl (PersistenceFailure StoreUnavailable), example_store)"
    by (auto simp: commit_def)
  from commit_all_or_nothing [of None 1 ?d example_store] s
  have 2: "\<exists>rep. commit None 1 ?d example_store =
             (Inr rep, example_store\<lparr>rows := plan 1 1 ?d\<rparr>)"
    by (auto simp: commit_def)
  from 1 2 [unfolded example_plan] show ?thesis by blast
qed

end
